theory Spec2Isabelle
  imports Main
begin

section \<open>Strings\<close>

text \<open>
  A Python \<^verbatim>\<open>str\<close> is modelled as a \<^typ>\<open>string\<close>: a list of characters with
  code points 0 to 255. On that range the three character-level operations that
  \<^verbatim>\<open>AppriseLocale.py\<close> relies on are the following.
  \<^item> \<^verbatim>\<open>[a-z]\<close> under \<^verbatim>\<open>re.IGNORECASE\<close> accepts the 52 ASCII letters.
  \<^item> \<^verbatim>\<open>\s\<close> accepts the code points 9 to 13, 28 to 32, 133 and 160.
  \<^item> \<^verbatim>\<open>str.lower()\<close> adds 32 to the code points 65 to 90 and to 192 to 222
    other than 215, and leaves every other character alone.
\<close>

definition is_letter :: "char \<Rightarrow> bool" where
  "is_letter c =
     (let n = (of_char c :: nat)
      in (65 \<le> n \<and> n \<le> 90) \<or> (97 \<le> n \<and> n \<le> 122))"

definition is_space :: "char \<Rightarrow> bool" where
  "is_space c =
     (let n = (of_char c :: nat)
      in (9 \<le> n \<and> n \<le> 13) \<or> (28 \<le> n \<and> n \<le> 32) \<or> n = 133 \<or> n = 160)"

definition chr_lower :: "char \<Rightarrow> char" where
  "chr_lower c =
     (let n = (of_char c :: nat)
      in if (65 \<le> n \<and> n \<le> 90) \<or> (192 \<le> n \<and> n \<le> 222 \<and> n \<noteq> 215)
         then char_of (n + 32) else c)"

definition str_lower :: "string \<Rightarrow> string" where
  "str_lower s = map chr_lower s"


section \<open>Exceptions\<close>

text \<open>
  Each constructor stands for a Python exception class together with its
  subclasses. \<open>IOError\<close> is Python 3's alias of \<^verbatim>\<open>OSError\<close>, so it covers
  \<^verbatim>\<open>FileNotFoundError\<close> and \<^verbatim>\<open>PermissionError\<close>. \<open>TypeError\<close> carries
  the text that \<^verbatim>\<open>str(e)\<close> yields. \<open>OtherError\<close> is any exception that no
  handler of the module names.
\<close>

datatype error =
    IOError
  | KeyError
  | TypeError string
  | NameError
  | RuntimeError
  | OtherError

section \<open>Catalogs and the world outside the module\<close>

text \<open>
  A translation catalog is opaque to the module; here it is the table of
  messages it holds. Its \<^verbatim>\<open>gettext\<close> method returns the message itself when
  the table has no entry.
\<close>

type_synonym catalog = "(string \<times> string) list"

definition catalog_gettext :: "catalog \<Rightarrow> string \<Rightarrow> string" where
  "catalog_gettext c msg = (case map_of c msg of None \<Rightarrow> msg | Some t \<Rightarrow> t)"

text \<open>
  Everything the module reads from its surroundings and never writes.
  \<^item> \<open>gettext_importable\<close>: whether \<^verbatim>\<open>import gettext\<close> succeeds.
  \<^item> \<open>environ\<close>: \<^verbatim>\<open>os.environ\<close>.
  \<^item> \<open>windll\<close>: \<open>None\<close> when \<^verbatim>\<open>ctypes\<close> has no attribute \<^verbatim>\<open>windll\<close>,
    otherwise the number \<^verbatim>\<open>GetUserDefaultUILanguage()\<close> returns.
  \<^item> \<open>windows_locale\<close>: the dictionary \<^verbatim>\<open>locale.windows_locale\<close>.
  \<^item> \<open>getlocale\<close>: the outcome of \<^verbatim>\<open>locale.getlocale()[0]\<close>, a value or a raise.
  \<^item> \<open>translation\<close>: the outcome of
    \<^verbatim>\<open>gettext.translation(DOMAIN, localedir=LOCALE_DIR, languages=[l])\<close>.
  \<^item> \<open>install_translation\<close>: the catalog that
    \<^verbatim>\<open>gettext.install(DOMAIN, localedir=LOCALE_DIR)\<close> finds at import time.
  \<^item> \<open>gettext_gettext\<close>: the module-level function \<^verbatim>\<open>gettext.gettext\<close>.
\<close>

record os =
  gettext_importable :: bool
  environ :: "string \<rightharpoonup> string"
  windll :: "nat option"
  windows_locale :: "nat \<rightharpoonup> string"
  getlocale :: "error + string option"
  translation :: "string option \<Rightarrow> error + catalog"
  install_translation :: catalog
  gettext_gettext :: "string \<Rightarrow> string"

text \<open>
  The function bound to \<^verbatim>\<open>_\<close> in \<^verbatim>\<open>builtins\<close>: the identity
  \<^verbatim>\<open>lambda x: x\<close> of the import fallback, or the \<^verbatim>\<open>gettext\<close> method of an
  installed catalog.
\<close>

datatype builtin_fn = Passthrough | CatalogGettext catalog

fun call_underscore :: "builtin_fn \<Rightarrow> string \<Rightarrow> string" where
  "call_underscore Passthrough x = x"
| "call_underscore (CatalogGettext c) x = catalog_gettext c x"

text \<open>The calls the module makes on the catalog facility, in order.\<close>

datatype call = Translation "string option" | Install catalog

text \<open>
  The process-wide state the module writes: its flag \<^verbatim>\<open>GETTEXT_LOADED\<close>,
  whether its global name \<^verbatim>\<open>gettext\<close> is bound, \<^verbatim>\<open>builtins._\<close>, the warnings
  handed to the logger and the record of calls.
\<close>

record globals =
  GETTEXT_LOADED :: bool
  gettext_bound :: bool
  underscore :: builtin_fn
  warnings :: "string list"
  calls :: "call list"

definition install :: "catalog \<Rightarrow> globals \<Rightarrow> globals" where
  "install c g = g\<lparr>underscore := CatalogGettext c, calls := calls g @ [Install c]\<rparr>"

definition gettext_translation ::
  "os \<Rightarrow> string option \<Rightarrow> globals \<Rightarrow> (error + catalog) \<times> globals" where
  "gettext_translation E l g = (translation E l, g\<lparr>calls := calls g @ [Translation l]\<rparr>)"

text \<open>
  Lines 44 to 64, the import of the module. When \<^verbatim>\<open>import gettext\<close> raises
  \<^verbatim>\<open>ImportError\<close> the name \<^verbatim>\<open>gettext\<close> stays unbound, the flag stays
  \<open>False\<close> and \<^verbatim>\<open>_\<close> becomes the identity.
\<close>

definition module_import :: "os \<Rightarrow> globals" where
  "module_import E =
     (if gettext_importable E
      then \<lparr>GETTEXT_LOADED = True, gettext_bound = True,
            underscore = CatalogGettext (install_translation E),
            warnings = [], calls = [Install (install_translation E)]\<rparr>
      else \<lparr>GETTEXT_LOADED = False, gettext_bound = False,
            underscore = Passthrough, warnings = [], calls = []\<rparr>)"

section \<open>LazyTranslation\<close>

record LazyTranslation =
  text_of :: string

definition gettext_lazy :: "string \<Rightarrow> LazyTranslation" where
  "gettext_lazy t = \<lparr>text_of = t\<rparr>"

text \<open>
  \<^verbatim>\<open>__str__\<close> evaluates \<^verbatim>\<open>gettext.gettext(self.text)\<close>. Reading the global
  name \<^verbatim>\<open>gettext\<close> raises \<^verbatim>\<open>NameError\<close> when the import never bound it.
\<close>

definition LazyTranslation_str :: "os \<Rightarrow> globals \<Rightarrow> LazyTranslation \<Rightarrow> error + string" where
  "LazyTranslation_str E g self =
     (if gettext_bound g then Inr (gettext_gettext E (text_of self)) else Inl NameError)"

section \<open>Language detection\<close>

text \<open>
  \<^verbatim>\<open>_local_re.match(localename)\<close> followed by \<^verbatim>\<open>result.group('lang')\<close>. The
  expression is \<^verbatim>\<open>^\s*(?P<lang>[a-z]{2})(...|.+)?\<close>: after leading white space it
  needs two letters, and the group that follows them is optional, so whatever
  comes next never decides the match. The result is \<open>None\<close> when there is no
  match and the two letters, in the case they were written in, otherwise.
\<close>

definition local_re_lang :: "string \<Rightarrow> string option" where
  "local_re_lang s =
     (case dropWhile is_space s of
        a # b # rest \<Rightarrow> if is_letter a \<and> is_letter b then Some [a, b] else None
      | _ \<Rightarrow> None)"

text \<open>
  The loop of lines 209 to 214 over the variable names that are left to probe.
\<close>

fun posix_lookup :: "(string \<rightharpoonup> string) \<Rightarrow> string list \<Rightarrow> string option" where
  "posix_lookup env [] = None"
| "posix_lookup env (variable # vs) =
     (case env variable of
        None \<Rightarrow> posix_lookup env vs
      | Some localename \<Rightarrow>
          if localename = [] then posix_lookup env vs
          else (case local_re_lang localename of
                  None \<Rightarrow> posix_lookup env vs
                | Some l \<Rightarrow> Some (str_lower l)))"

definition variables :: "string list" where
  "variables = [''LC_ALL'', ''LC_CTYPE'', ''LANG'', ''LANGUAGE'']"

text \<open>
  Lines 217 to 228. A missing key of \<^verbatim>\<open>locale.windows_locale\<close> raises
  \<^verbatim>\<open>KeyError\<close>, which the handler turns into falling through.
\<close>

definition windows_lookup :: "os \<Rightarrow> string option" where
  "windows_lookup E =
     (case windll E of
        None \<Rightarrow> None
      | Some n \<Rightarrow>
          (case windows_locale E n of
             None \<Rightarrow> None
           | Some l \<Rightarrow> Some (str_lower (take 2 l))))"

text \<open>Line 245: \<^verbatim>\<open>return None if not lang else lang[0:2].lower()\<close>.\<close>

definition two_letter :: "string option \<Rightarrow> string option" where
  "two_letter lang =
     (case lang of
        None \<Rightarrow> None
      | Some s \<Rightarrow> if s = [] then None else Some (str_lower (take 2 s)))"

text \<open>
  \<^verbatim>\<open>detect_language(lang, detect_fallback)\<close>. The argument is \<open>Some s\<close> for
  a \<^verbatim>\<open>str\<close> and \<open>None\<close> for \<^verbatim>\<open>None\<close> or any other object that is not a
  \<^verbatim>\<open>str\<close>: the code tells them apart with \<^verbatim>\<open>isinstance(lang, str)\<close> only. The
  handler of line 235 catches \<^verbatim>\<open>TypeError\<close> and nothing else.
\<close>

definition detect_language ::
  "os \<Rightarrow> string option \<Rightarrow> bool \<Rightarrow> globals \<Rightarrow> (error + string option) \<times> globals" where
  "detect_language E lang detect_fallback g =
     (case lang of
        Some s \<Rightarrow> (Inr (two_letter (Some s)), g)
      | None \<Rightarrow>
          if \<not> detect_fallback then (Inr None, g)
          else
            (case posix_lookup (environ E) variables of
               Some l \<Rightarrow> (Inr (Some l), g)
             | None \<Rightarrow>
                 (case windows_lookup E of
                    Some l \<Rightarrow> (Inr (Some l), g)
                  | None \<Rightarrow>
                      (case getlocale E of
                         Inl (TypeError m) \<Rightarrow>
                           (Inr None,
                            g\<lparr>warnings := warnings g @
                                 [''Language detection failure / '' @ m]\<rparr>)
                       | Inl e \<Rightarrow> (Inl e, g)
                       | Inr l \<Rightarrow> (Inr (two_letter l), g)))))"





section \<open>AppriseLocale\<close>

text \<open>
  An instance has the attributes \<^verbatim>\<open>lang\<close> and \<^verbatim>\<open>_gtobjs\<close>. A key of the
  cache is whatever \<^verbatim>\<open>detect_language\<close> returned, \<^verbatim>\<open>None\<close> included.
\<close>

record AppriseLocale =
  lang :: "string option"
  gtobjs :: "string option \<rightharpoonup> catalog"

text \<open>Python's truth value of \<^verbatim>\<open>self.lang\<close>.\<close>

definition truthy :: "string option \<Rightarrow> bool" where
  "truthy l = (case l of None \<Rightarrow> False | Some s \<Rightarrow> s \<noteq> [])"

text \<open>
  \<^verbatim>\<open>__init__\<close>, lines 111 to 141. An exception of \<^verbatim>\<open>detect_language\<close>
  leaves no instance behind. The handler around the load names \<^verbatim>\<open>IOError\<close>
  only.
\<close>

definition init ::
  "os \<Rightarrow> string option \<Rightarrow> globals \<Rightarrow> (error + AppriseLocale) \<times> globals" where
  "init E language g =
     (case detect_language E language True g of
        (Inl e, g1) \<Rightarrow> (Inl e, g1)
      | (Inr l, g1) \<Rightarrow>
          if \<not> GETTEXT_LOADED g1 then (Inr \<lparr>lang = l, gtobjs = Map.empty\<rparr>, g1)
          else if truthy l then
            (case gettext_translation E l g1 of
               (Inr c, g2) \<Rightarrow> (Inr \<lparr>lang = l, gtobjs = [l \<mapsto> c]\<rparr>, install c g2)
             | (Inl IOError, g2) \<Rightarrow> (Inr \<lparr>lang = l, gtobjs = Map.empty\<rparr>, g2)
             | (Inl e, g2) \<Rightarrow> (Inl e, g2))
          else (Inr \<lparr>lang = l, gtobjs = Map.empty\<rparr>, g1))"

subsection \<open>The scope \<^verbatim>\<open>lang_at\<close>\<close>

text \<open>
  \<^verbatim>\<open>lang_at\<close> is a generator under \<^verbatim>\<open>contextlib.contextmanager\<close>. Entering
  the \<^verbatim>\<open>with\<close> statement runs it up to a \<^verbatim>\<open>yield\<close>; leaving the statement
  resumes it there, with the exception of the body thrown in when the body
  failed. The generator has three \<^verbatim>\<open>yield\<close>s: line 155 when gettext is
  missing, line 179 inside the \<^verbatim>\<open>try\<close>, line 184 inside the handler. The
  suspended generator is the place it stopped at and its local \<^verbatim>\<open>lang\<close>.
\<close>

datatype yield_point = YieldDisabled | YieldTry | YieldExcept

record scope =
  at :: yield_point
  tidy :: "string option"

text \<open>
  The \<^verbatim>\<open>finally\<close> block, lines 186 to 190. The subscript
  \<^verbatim>\<open>self._gtobjs[self.lang]\<close> raises \<^verbatim>\<open>KeyError\<close> on a missing key.
\<close>

definition restore :: "AppriseLocale \<Rightarrow> string option \<Rightarrow> globals \<Rightarrow> error option \<times> globals" where
  "restore self l g =
     (if l \<noteq> lang self \<and> l \<in> dom (gtobjs self)
      then (case gtobjs self (lang self) of
              None \<Rightarrow> (Some KeyError, g)
            | Some c \<Rightarrow> (None, install c g))
      else (None, g))"

text \<open>The classes named by \<^verbatim>\<open>except (IOError, KeyError)\<close>.\<close>

fun handled :: "error \<Rightarrow> bool" where
  "handled IOError = True"
| "handled KeyError = True"
| "handled e = False"

text \<open>
  An exception \<open>e\<close> is on its way out of the \<^verbatim>\<open>try\<close> statement and the
  \<^verbatim>\<open>finally\<close> block runs first: an exception of the block replaces \<open>e\<close>.
\<close>

definition unwind :: "AppriseLocale \<Rightarrow> string option \<Rightarrow> error \<Rightarrow> globals \<Rightarrow> error option \<times> globals" where
  "unwind self l e g =
     (case restore self l g of
        (None, g') \<Rightarrow> (Some e, g')
      | (Some e', g') \<Rightarrow> (Some e', g'))"

text \<open>
  Entering the scope, lines 153 to 184 up to the first \<^verbatim>\<open>yield\<close> reached.
  The result is the suspended generator, or the exception that left it before
  any \<^verbatim>\<open>yield\<close>; with it come the instance and the globals as they then are.
\<close>

definition lang_at_enter ::
  "os \<Rightarrow> AppriseLocale \<Rightarrow> string option \<Rightarrow> globals \<Rightarrow>
     (error + scope) \<times> AppriseLocale \<times> globals" where
  "lang_at_enter E self lang0 g =
     (if \<not> GETTEXT_LOADED g then (Inr \<lparr>at = YieldDisabled, tidy = lang0\<rparr>, self, g)
      else
        (case detect_language E lang0 False g of
           (Inl e, g1) \<Rightarrow> (Inl e, self, g1)
         | (Inr l, g1) \<Rightarrow>
             (case gtobjs self l of
                Some c \<Rightarrow>
                  if l \<noteq> lang self
                  then (Inr \<lparr>at = YieldTry, tidy = l\<rparr>, self, install c g1)
                  else (Inr \<lparr>at = YieldTry, tidy = l\<rparr>, self, g1)
              | None \<Rightarrow>
                  (case gettext_translation E (lang self) g1 of
                     (Inr c, g2) \<Rightarrow>
                       (Inr \<lparr>at = YieldTry, tidy = l\<rparr>,
                        self\<lparr>gtobjs := (gtobjs self)(l \<mapsto> c)\<rparr>, install c g2)
                   | (Inl e, g2) \<Rightarrow>
                       if handled e then (Inr \<lparr>at = YieldExcept, tidy = l\<rparr>, self, g2)
                       else (case unwind self l e g2 of
                               (None, g3) \<Rightarrow> (Inl e, self, g3)
                             | (Some e', g3) \<Rightarrow> (Inl e', self, g3))))))"

text \<open>
  Leaving the scope. \<open>exc\<close> is \<open>None\<close> when the body completed and the
  exception it raised otherwise; the result is what the \<^verbatim>\<open>with\<close> statement
  raises to its caller, if anything. The instance is only read.
  \<^item> At line 155 the generator has no handler: it returns, or lets the
    exception through.
  \<^item> At line 179 a completed body runs the \<^verbatim>\<open>finally\<close> block. An exception
    the handler names takes the generator to the \<^verbatim>\<open>yield\<close> of line 184, so
    \<^verbatim>\<open>contextmanager\<close> raises \<^verbatim>\<open>RuntimeError\<close> (the generator did not
    stop) and closes the generator, which runs the \<^verbatim>\<open>finally\<close> block; an
    interpreter that leaves the closing to the collector runs the block later,
    and the model runs it at once. Any other exception runs the
    \<^verbatim>\<open>finally\<close> block on its way out.
  \<^item> At line 184 the generator sits inside the handler, where nothing is
    caught any more.
\<close>

definition lang_at_exit ::
  "AppriseLocale \<Rightarrow> scope \<Rightarrow> error option \<Rightarrow> globals \<Rightarrow> error option \<times> globals" where
  "lang_at_exit self sc exc g =
     (case at sc of
        YieldDisabled \<Rightarrow> (exc, g)
      | YieldTry \<Rightarrow>
          (case exc of
             None \<Rightarrow> restore self (tidy sc) g
           | Some e \<Rightarrow>
               if handled e then unwind self (tidy sc) RuntimeError g
               else unwind self (tidy sc) e g)
      | YieldExcept \<Rightarrow>
          (case exc of
             None \<Rightarrow> restore self (tidy sc) g
           | Some e \<Rightarrow> unwind self (tidy sc) e g))"

text \<open>
  The statement \<^verbatim>\<open>with self.lang_at(lang): body\<close>. The body is any state
  transformer that completes or raises.
\<close>

definition with_lang_at ::
  "os \<Rightarrow> AppriseLocale \<Rightarrow> string option \<Rightarrow>
   (AppriseLocale \<Rightarrow> globals \<Rightarrow> error option \<times> AppriseLocale \<times> globals) \<Rightarrow>
   globals \<Rightarrow> error option \<times> AppriseLocale \<times> globals" where
  "with_lang_at E self lang0 body g =
     (case lang_at_enter E self lang0 g of
        (Inl e, self1, g1) \<Rightarrow> (Some e, self1, g1)
      | (Inr sc, self1, g1) \<Rightarrow>
          (case body self1 g1 of
             (exc, self2, g2) \<Rightarrow>
               (case lang_at_exit self2 sc exc g2 of
                  (r, g3) \<Rightarrow> (r, self2, g3))))"

text \<open>The body \<^verbatim>\<open>pass\<close>.\<close>

definition pass :: "AppriseLocale \<Rightarrow> globals \<Rightarrow> error option \<times> AppriseLocale \<times> globals" where
  "pass self g = (None, self, g)"

subsection \<open>Pickling\<close>

text \<open>
  \<^verbatim>\<open>__getstate__\<close> copies the attribute dictionary and deletes
  \<^verbatim>\<open>_gtobjs\<close> from the copy: what is left is \<^verbatim>\<open>lang\<close>. \<^verbatim>\<open>__setstate__\<close>
  updates the attributes of the receiving object from the state and then binds
  \<^verbatim>\<open>_gtobjs\<close> to an empty dictionary.
\<close>

record pickled =
  state_lang :: "string option"

definition getstate :: "AppriseLocale \<Rightarrow> pickled" where
  "getstate self = \<lparr>state_lang = lang self\<rparr>"

definition setstate :: "AppriseLocale \<Rightarrow> pickled \<Rightarrow> AppriseLocale" where
  "setstate self state = (self\<lparr>lang := state_lang state\<rparr>)\<lparr>gtobjs := Map.empty\<rparr>"

section \<open>Concrete hosts and instances\<close>

text \<open>
  A POSIX host with gettext, catalogs for \<^verbatim>\<open>en\<close> and \<^verbatim>\<open>fr\<close> and no other,
  no locale variable set and no catalog for \<^verbatim>\<open>gettext.install\<close> to find.
  Asked for a language that is not a string, \<^verbatim>\<open>gettext.translation\<close> raises
  an exception that is not an \<^verbatim>\<open>IOError\<close>.
\<close>

definition en_catalog :: catalog where
  "en_catalog = [(''Hello'', ''Hello'')]"

definition fr_catalog :: catalog where
  "fr_catalog = [(''Hello'', ''Bonjour'')]"

definition posix_host :: os where
  "posix_host =
     \<lparr>gettext_importable = True, environ = Map.empty, windll = None,
      windows_locale = Map.empty, getlocale = Inr None,
      translation = (\<lambda>l. if l = None then Inl OtherError
                          else if l = Some ''en'' then Inr en_catalog
                          else if l = Some ''fr'' then Inr fr_catalog
                          else Inl IOError),
      install_translation = [], gettext_gettext = (\<lambda>x. x)\<rparr>"





text \<open>The same host on an interpreter that cannot import gettext.\<close>

definition bare_host :: os where
  "bare_host = posix_host\<lparr>gettext_importable := False\<rparr>"

text \<open>
  The instance that \<^verbatim>\<open>AppriseLocale('en')\<close> builds on \<open>posix_host\<close>, the
  one that unpickling its pickle gives, and the instance that
  \<^verbatim>\<open>AppriseLocale('de_DE')\<close> builds there, where no German catalog exists.
\<close>

definition english :: AppriseLocale where
  "english = \<lparr>lang = Some ''en'', gtobjs = [Some ''en'' \<mapsto> en_catalog]\<rparr>"

definition unpickled :: AppriseLocale where
  "unpickled = setstate english (getstate english)"

definition german :: AppriseLocale where
  "german = \<lparr>lang = Some ''de'', gtobjs = Map.empty\<rparr>"

section \<open>Evaluation rules\<close>

lemmas char_eval =
  is_letter_def is_space_def chr_lower_def str_lower_def char_of_def bit_Suc_0_iff

lemma detect_language_no_fallback:
  "detect_language E lang0 False g = (Inr (two_letter lang0), g)"
  by (cases lang0) (simp_all add: detect_language_def two_letter_def)

lemma detect_language_globals:
  assumes "detect_language E lang0 fb g = (r, g1)"
  shows "underscore g1 = underscore g \<and> calls g1 = calls g \<and>
         GETTEXT_LOADED g1 = GETTEXT_LOADED g \<and> gettext_bound g1 = gettext_bound g"
  using assms
  by (auto simp: detect_language_def split: option.splits if_splits sum.splits error.splits)



lemma local_re_lang_letters:
  assumes "local_re_lang s = Some l"
  shows "\<exists>a b. l = [a, b] \<and> is_letter a \<and> is_letter b"
  using assms by (auto simp: local_re_lang_def split: list.splits if_splits)

lemma restore_same_language:
  "restore self (lang self) g = (None, g)"
  by (simp add: restore_def)

lemma restore_not_cached:
  "gtobjs self l = None \<Longrightarrow> restore self l g = (None, g)"
  by (auto simp: restore_def)

lemma lang_at_enter_keeps:
  assumes "lang_at_enter E self lang0 g = (r, self', g')"
  shows "lang self' = lang self \<and> gtobjs self \<subseteq>\<^sub>m gtobjs self'"
proof (cases "GETTEXT_LOADED g")
  case False
  with assms show ?thesis by (simp add: lang_at_enter_def)
next
  case True
  show ?thesis
  proof (cases "gtobjs self (two_letter lang0)")
    case (Some c)
    with True assms show ?thesis
      by (auto simp: lang_at_enter_def detect_language_no_fallback split: if_splits)
  next
    case None
    with True assms show ?thesis
      by (auto simp: lang_at_enter_def detect_language_no_fallback gettext_translation_def
          unwind_def restore_not_cached map_le_def split: sum.splits if_splits)
  qed
qed

section \<open>Normalising a supplied language\<close>

text \<open>
  Claim C9. A supplied string that starts with two letters, in either case, is
  normalised to those two letters in lower case, whatever follows them: a
  region and an encoding as in \<^verbatim>\<open>xx_YY.enc\<close>, a region as in \<^verbatim>\<open>xx:YY\<close>, or
  nothing. The flag \<^verbatim>\<open>detect_fallback\<close> and the host play no part, and nothing
  is written.
\<close>

theorem detect_language_supplied_prefix:
  assumes "is_letter x" and "is_letter y"
  shows "detect_language E (Some (x # y # rest)) fb g =
           (Inr (Some [chr_lower x, chr_lower y]), g)"
  by (simp add: detect_language_def two_letter_def str_lower_def)

theorem detect_language_supplied_prefix_witness:
  "detect_language posix_host (Some ''fr_FR.UTF-8'') True (module_import posix_host) =
     (Inr (Some ''fr''), module_import posix_host)
   \<and> detect_language posix_host (Some ''EN:us'') True (module_import posix_host) =
     (Inr (Some ''en''), module_import posix_host)
   \<and> detect_language posix_host (Some ''De'') False (module_import posix_host) =
     (Inr (Some ''de''), module_import posix_host)"
  using
    detect_language_supplied_prefix
      [of "CHR ''f''" "CHR ''r''" posix_host "''_FR.UTF-8''" True "module_import posix_host"]
    detect_language_supplied_prefix
      [of "CHR ''E''" "CHR ''N''" posix_host "'':us''" True "module_import posix_host"]
    detect_language_supplied_prefix
      [of "CHR ''D''" "CHR ''e''" posix_host "[]" False "module_import posix_host"]
  by (simp add: char_eval)

text \<open>
  Claim C2, as stated: a supplied string without a leading two-letter code is
  normalised to none. The string \<^verbatim>\<open>12\<close> has no such code, \<^verbatim>\<open>_local_re\<close>
  does not match it, and \<^verbatim>\<open>detect_language\<close> returns \<^verbatim>\<open>12\<close>.
\<close>

theorem detect_language_malformed_counterexample:
  "local_re_lang ''12'' = None \<and>
   fst (detect_language posix_host (Some ''12'') True (module_import posix_host)) =
     Inr (Some ''12'')"
  by (simp add: detect_language_def two_letter_def local_re_lang_def char_eval)

text \<open>
  Claim C2, amended. A supplied string is never matched against a pattern:
  the empty string is normalised to none, and any other string to its first two
  characters (its only character when it has one) in lower case, letters or
  not.
\<close>

theorem detect_language_supplied_slice:
  "detect_language E (Some s) fb g =
     (Inr (if s = [] then None else Some (str_lower (take 2 s))), g)"
  by (simp add: detect_language_def two_letter_def)

theorem detect_language_supplied_slice_witness:
  "detect_language posix_host (Some ''7'') False (module_import posix_host) =
     (Inr (Some ''7''), module_import posix_host)
   \<and> detect_language posix_host (Some []) True (module_import posix_host) =
     (Inr None, module_import posix_host)"
  using detect_language_supplied_slice [of posix_host "''7''" False "module_import posix_host"]
    detect_language_supplied_slice [of posix_host "[]" True "module_import posix_host"]
  by (simp add: char_eval)

section \<open>Probing the environment\<close>






section \<open>Construction\<close>

text \<open>
  Claim C7. When detection yields a language \<open>l\<close> and the catalog of \<open>l\<close>
  cannot be found or opened (\<^verbatim>\<open>gettext.translation\<close> raises \<^verbatim>\<open>IOError\<close>), the
  constructor returns an instance: its \<^verbatim>\<open>lang\<close> is \<open>l\<close>, its cache is empty,
  nothing is installed and \<^verbatim>\<open>builtins._\<close> is what it was. The only call it may
  have made is the failed load.
\<close>

theorem init_absorbs_missing_catalog:
  assumes "detect_language E language True g = (Inr l, g1)"
    and "translation E l = Inl IOError"
  shows "init E language g =
           (Inr \<lparr>lang = l, gtobjs = Map.empty\<rparr>,
            if GETTEXT_LOADED g \<and> truthy l
            then g1\<lparr>calls := calls g @ [Translation l]\<rparr> else g1)
         \<and> underscore (snd (init E language g)) = underscore g"
  using assms detect_language_globals [OF assms(1)]
  by (simp add: init_def gettext_translation_def)

theorem init_absorbs_missing_catalog_witness:
  "init posix_host (Some ''de_DE'') (module_import posix_host) =
     (Inr \<lparr>lang = Some ''de'', gtobjs = Map.empty\<rparr>,
      (module_import posix_host)\<lparr>calls := [Install [], Translation (Some ''de'')]\<rparr>)"
proof -
  have d: "detect_language posix_host (Some ''de_DE'') True (module_import posix_host) =
             (Inr (Some ''de''), module_import posix_host)"
    by (simp add: detect_language_def two_letter_def char_eval)
  have t: "translation posix_host (Some ''de'') = Inl IOError"
    by (simp add: posix_host_def)
  show ?thesis
    using init_absorbs_missing_catalog [OF d t]
    by (simp add: module_import_def posix_host_def truthy_def)
qed

text \<open>
  The constructor on \<open>posix_host\<close>: a language with a catalog gives an
  instance that caches the catalog under its own code and installs it.
\<close>

lemma init_builds_english:
  "init posix_host (Some ''en'') (module_import posix_host) =
     (Inr english,
      (module_import posix_host)
        \<lparr>underscore := CatalogGettext en_catalog,
         calls := [Install [], Translation (Some ''en''), Install en_catalog]\<rparr>)"
proof -
  have d: "detect_language posix_host (Some ''en'') True (module_import posix_host) =
             (Inr (Some ''en''), module_import posix_host)"
    by (simp add: detect_language_def two_letter_def char_eval)
  have l: "GETTEXT_LOADED (module_import posix_host)"
    and c: "calls (module_import posix_host) = [Install []]"
    by (simp_all add: module_import_def posix_host_def)
  have t: "translation posix_host (Some ''en'') = Inr en_catalog"
    by (simp add: posix_host_def)
  show ?thesis
    by (simp add: init_def d l c t truthy_def gettext_translation_def install_def english_def)
qed

lemma init_builds_german:
  "fst (init posix_host (Some ''de_DE'') (module_import posix_host)) = Inr german"
proof -
  have d: "detect_language posix_host (Some ''de_DE'') True (module_import posix_host) =
             (Inr (Some ''de''), module_import posix_host)"
    by (simp add: detect_language_def two_letter_def char_eval)
  have l: "GETTEXT_LOADED (module_import posix_host)"
    by (simp add: module_import_def posix_host_def)
  have t: "translation posix_host (Some ''de'') = Inl IOError"
    by (simp add: posix_host_def)
  show ?thesis
    by (simp add: init_def d l t truthy_def gettext_translation_def german_def)
qed

section \<open>Pickling\<close>

text \<open>
  Claim C10. Whatever object receives the state, \<^verbatim>\<open>__setstate__\<close> applied to
  the \<^verbatim>\<open>__getstate__\<close> of an instance gives an instance with the same
  \<^verbatim>\<open>lang\<close> and an empty cache.
\<close>

theorem pickle_round_trip:
  "lang (setstate other (getstate self)) = lang self \<and>
   gtobjs (setstate other (getstate self)) = Map.empty"
  by (simp add: setstate_def getstate_def)

theorem pickle_round_trip_witness:
  "lang unpickled = Some ''en'' \<and> gtobjs unpickled = Map.empty \<and>
   gtobjs english (Some ''en'') = Some en_catalog"
  using pickle_round_trip [of english english]
  by (simp add: unpickled_def english_def)

section \<open>The scope\<close>

text \<open>
  Claim C3. With gettext loaded, let \<open>k\<close> be the requested language as
  \<^verbatim>\<open>detect_language\<close> tidies it. When the cache has no entry for \<open>k\<close>,
  entering the scope makes one load, and it asks for the catalog of
  \<^verbatim>\<open>self.lang\<close>, not of \<open>k\<close>. A catalog that the load returns is stored
  under the key \<open>k\<close> and installed. A load that raises stores nothing.
\<close>

theorem lang_at_loads_default_language:
  assumes "GETTEXT_LOADED g"
    and "gtobjs self (two_letter lang0) = None"
  shows "lang_at_enter E self lang0 g =
     (case translation E (lang self) of
        Inr c \<Rightarrow>
          (Inr \<lparr>at = YieldTry, tidy = two_letter lang0\<rparr>,
           self\<lparr>gtobjs := (gtobjs self)(two_letter lang0 \<mapsto> c)\<rparr>,
           g\<lparr>underscore := CatalogGettext c,
             calls := calls g @ [Translation (lang self), Install c]\<rparr>)
      | Inl e \<Rightarrow>
          (if handled e then Inr \<lparr>at = YieldExcept, tidy = two_letter lang0\<rparr> else Inl e,
           self, g\<lparr>calls := calls g @ [Translation (lang self)]\<rparr>))"
  using assms
  by (simp add: lang_at_enter_def detect_language_no_fallback gettext_translation_def
      install_def unwind_def restore_not_cached split: sum.splits)

text \<open>
  On \<open>posix_host\<close>, which has a French catalog, the English instance asked
  for \<^verbatim>\<open>fr_FR\<close> caches the English catalog under \<^verbatim>\<open>fr\<close>.
\<close>

theorem lang_at_loads_default_language_witness:
  "lang_at_enter posix_host english (Some ''fr_FR'') (module_import posix_host) =
     (Inr \<lparr>at = YieldTry, tidy = Some ''fr''\<rparr>,
      english\<lparr>gtobjs := [Some ''en'' \<mapsto> en_catalog, Some ''fr'' \<mapsto> en_catalog]\<rparr>,
      (module_import posix_host)
        \<lparr>underscore := CatalogGettext en_catalog,
         calls := [Install [], Translation (Some ''en''), Install en_catalog]\<rparr>)"
proof -
  have k: "two_letter (Some ''fr_FR'') = Some ''fr''"
    by (simp add: two_letter_def char_eval)
  have l: "GETTEXT_LOADED (module_import posix_host)"
    by (simp add: module_import_def posix_host_def)
  have n: "gtobjs english (two_letter (Some ''fr_FR'')) = None"
    by (simp add: k english_def)
  have t: "translation posix_host (lang english) = Inr en_catalog"
    by (simp add: posix_host_def english_def)
  show ?thesis
    using lang_at_loads_default_language [OF l n, of posix_host]
    by (simp add: t k) (simp add: english_def module_import_def posix_host_def)
qed

text \<open>
  Claim C6, as stated: when the requested language is tidied to
  \<^verbatim>\<open>self.lang\<close>, nothing is installed inside the scope. The unpickled
  English instance has an empty cache; asked for \<^verbatim>\<open>en\<close> on a host that has
  the English catalog, it loads that catalog, caches it and installs it.
\<close>

theorem lang_at_default_language_counterexample:
  "two_letter (Some ''en'') = lang unpickled \<and>
   lang_at_enter posix_host unpickled (Some ''en'') (module_import posix_host) =
     (Inr \<lparr>at = YieldTry, tidy = Some ''en''\<rparr>,
      unpickled\<lparr>gtobjs := [Some ''en'' \<mapsto> en_catalog]\<rparr>,
      (module_import posix_host)
        \<lparr>underscore := CatalogGettext en_catalog,
         calls := [Install [], Translation (Some ''en''), Install en_catalog]\<rparr>)"
proof -
  have k: "two_letter (Some ''en'') = Some ''en''"
    by (simp add: two_letter_def char_eval)
  show ?thesis
    by (simp add: k lang_at_enter_def detect_language_no_fallback gettext_translation_def
        install_def unpickled_def setstate_def getstate_def english_def module_import_def
        posix_host_def)
qed

text \<open>
  Claim C6, amended. When the requested language is tidied to
  \<^verbatim>\<open>self.lang\<close>, the scope installs a catalog in one case only: gettext is
  loaded, the cache has no entry for \<^verbatim>\<open>self.lang\<close> and the load of the
  catalog of \<^verbatim>\<open>self.lang\<close> succeeds; entry then caches that catalog under
  \<^verbatim>\<open>self.lang\<close> and installs it. Without gettext, with \<^verbatim>\<open>self.lang\<close> in
  the cache, or with a load that raises, entry installs nothing and leaves
  \<^verbatim>\<open>builtins._\<close> alone. Leaving such a scope installs nothing, however the
  body ended, as long as the body kept \<^verbatim>\<open>self.lang\<close>.
\<close>

theorem lang_at_default_language_install:
  assumes "two_letter lang0 = lang self"
  shows "lang_at_enter E self lang0 g =
     (if \<not> GETTEXT_LOADED g then (Inr \<lparr>at = YieldDisabled, tidy = lang0\<rparr>, self, g)
      else
        (case gtobjs self (lang self) of
           Some d \<Rightarrow> (Inr \<lparr>at = YieldTry, tidy = lang self\<rparr>, self, g)
         | None \<Rightarrow>
             (case translation E (lang self) of
                Inr c \<Rightarrow>
                  (Inr \<lparr>at = YieldTry, tidy = lang self\<rparr>,
                   self\<lparr>gtobjs := (gtobjs self)(lang self \<mapsto> c)\<rparr>,
                   g\<lparr>underscore := CatalogGettext c,
                     calls := calls g @ [Translation (lang self), Install c]\<rparr>)
              | Inl e \<Rightarrow>
                  (if handled e then Inr \<lparr>at = YieldExcept, tidy = lang self\<rparr> else Inl e,
                   self, g\<lparr>calls := calls g @ [Translation (lang self)]\<rparr>))))
   \<and> (\<forall>sc self2 exc g2.
         (if at sc = YieldDisabled then True else tidy sc = lang self2) \<longrightarrow>
           snd (lang_at_exit self2 sc exc g2) = g2)"
proof (intro conjI allI impI)
  show "lang_at_enter E self lang0 g =
     (if \<not> GETTEXT_LOADED g then (Inr \<lparr>at = YieldDisabled, tidy = lang0\<rparr>, self, g)
      else
        (case gtobjs self (lang self) of
           Some d \<Rightarrow> (Inr \<lparr>at = YieldTry, tidy = lang self\<rparr>, self, g)
         | None \<Rightarrow>
             (case translation E (lang self) of
                Inr c \<Rightarrow>
                  (Inr \<lparr>at = YieldTry, tidy = lang self\<rparr>,
                   self\<lparr>gtobjs := (gtobjs self)(lang self \<mapsto> c)\<rparr>,
                   g\<lparr>underscore := CatalogGettext c,
                     calls := calls g @ [Translation (lang self), Install c]\<rparr>)
              | Inl e \<Rightarrow>
                  (if handled e then Inr \<lparr>at = YieldExcept, tidy = lang self\<rparr> else Inl e,
                   self, g\<lparr>calls := calls g @ [Translation (lang self)]\<rparr>))))"
    using assms
    by (simp add: lang_at_enter_def detect_language_no_fallback gettext_translation_def
        install_def unwind_def restore_same_language split: option.splits sum.splits)
next
  fix sc :: scope and self2 :: AppriseLocale and exc :: "error option" and g2 :: globals
  assume a: "if at sc = YieldDisabled then True else tidy sc = lang self2"
  show "snd (lang_at_exit self2 sc exc g2) = g2"
  proof (cases "at sc")
    case YieldDisabled
    then show ?thesis by (simp add: lang_at_exit_def)
  next
    case YieldTry
    with a have "tidy sc = lang self2" by simp
    with YieldTry show ?thesis
      by (simp add: lang_at_exit_def unwind_def restore_same_language split: option.splits)
  next
    case YieldExcept
    with a have "tidy sc = lang self2" by simp
    with YieldExcept show ?thesis
      by (simp add: lang_at_exit_def unwind_def restore_same_language split: option.splits)
  qed
qed

text \<open>
  The English instance asked for \<^verbatim>\<open>EN_us\<close> finds its catalog cached and
  touches nothing. The German instance, built where no German catalog exists,
  asked for \<^verbatim>\<open>de_DE\<close> tries the load, which raises, and installs nothing.
\<close>

theorem lang_at_default_language_install_witness:
  "lang_at_enter posix_host english (Some ''EN_us'') (module_import posix_host) =
     (Inr \<lparr>at = YieldTry, tidy = Some ''en''\<rparr>, english, module_import posix_host)
   \<and> lang_at_enter posix_host german (Some ''de_DE'') (module_import posix_host) =
     (Inr \<lparr>at = YieldExcept, tidy = Some ''de''\<rparr>, german,
      (module_import posix_host)\<lparr>calls := [Install [], Translation (Some ''de'')]\<rparr>)
   \<and> snd (lang_at_exit german \<lparr>at = YieldExcept, tidy = Some ''de''\<rparr> None
            (module_import posix_host)) = module_import posix_host"
proof -
  have ke: "two_letter (Some ''EN_us'') = lang english"
    by (simp add: two_letter_def char_eval english_def)
  have kd: "two_letter (Some ''de_DE'') = lang german"
    by (simp add: two_letter_def char_eval german_def)
  have l: "GETTEXT_LOADED (module_import posix_host)"
    and c: "calls (module_import posix_host) = [Install []]"
    by (simp_all add: module_import_def posix_host_def)
  have te: "gtobjs english (lang english) = Some en_catalog"
    by (simp add: english_def)
  have td: "gtobjs german (lang german) = None"
    "translation posix_host (lang german) = Inl IOError"
    by (simp_all add: german_def posix_host_def)
  have x: "if at \<lparr>at = YieldExcept, tidy = Some ''de''\<rparr> = YieldDisabled then True
           else tidy \<lparr>at = YieldExcept, tidy = Some ''de''\<rparr> = lang german"
    by (simp add: german_def)
  from lang_at_default_language_install [OF ke, of posix_host "module_import posix_host"]
  have e1: "lang_at_enter posix_host english (Some ''EN_us'') (module_import posix_host) =
     (Inr \<lparr>at = YieldTry, tidy = Some ''en''\<rparr>, english, module_import posix_host)"
    by (simp add: l te) (simp add: english_def)
  from lang_at_default_language_install [OF kd, of posix_host "module_import posix_host"]
  have e2: "lang_at_enter posix_host german (Some ''de_DE'') (module_import posix_host) =
     (Inr \<lparr>at = YieldExcept, tidy = Some ''de''\<rparr>, german,
      (module_import posix_host)\<lparr>calls := [Install [], Translation (Some ''de'')]\<rparr>)"
    by (simp add: l c td) (simp add: german_def)
  from lang_at_default_language_install [OF kd, of posix_host "module_import posix_host"] x
  have e3: "snd (lang_at_exit german \<lparr>at = YieldExcept, tidy = Some ''de''\<rparr> None
                  (module_import posix_host)) = module_import posix_host"
    by blast
  show ?thesis using e1 e2 e3 by simp
qed

text \<open>
  Claim C1. The docstring of \<^verbatim>\<open>lang_at\<close> promises that afterwards the
  language falls back to whatever it was. On a host whose import installed an
  empty catalog, the unpickled English instance enters the scope for
  \<^verbatim>\<open>fr\<close> and the body is \<^verbatim>\<open>pass\<close>. Entry loads the English catalog under
  \<^verbatim>\<open>fr\<close> and installs it. The \<^verbatim>\<open>finally\<close> block then looks up
  \<^verbatim>\<open>self._gtobjs['en']\<close>, which is absent: the statement raises
  \<^verbatim>\<open>KeyError\<close> and the English catalog stays installed.
\<close>

theorem lang_at_after_unpickle_raises:
  "with_lang_at posix_host unpickled (Some ''fr'') pass (module_import posix_host) =
     (Some KeyError,
      unpickled\<lparr>gtobjs := [Some ''fr'' \<mapsto> en_catalog]\<rparr>,
      (module_import posix_host)
        \<lparr>underscore := CatalogGettext en_catalog,
         calls := [Install [], Translation (Some ''en''), Install en_catalog]\<rparr>)
   \<and> underscore (module_import posix_host) = CatalogGettext []"
proof -
  have k: "two_letter (Some ''fr'') = Some ''fr''"
    by (simp add: two_letter_def char_eval)
  have e: "lang_at_enter posix_host unpickled (Some ''fr'') (module_import posix_host) =
     (Inr \<lparr>at = YieldTry, tidy = Some ''fr''\<rparr>,
      unpickled\<lparr>gtobjs := [Some ''fr'' \<mapsto> en_catalog]\<rparr>,
      (module_import posix_host)
        \<lparr>underscore := CatalogGettext en_catalog,
         calls := [Install [], Translation (Some ''en''), Install en_catalog]\<rparr>)"
    by (simp add: k lang_at_enter_def detect_language_no_fallback gettext_translation_def
        install_def unpickled_def setstate_def getstate_def english_def module_import_def
        posix_host_def)
  have x: "lang_at_exit (unpickled\<lparr>gtobjs := [Some ''fr'' \<mapsto> en_catalog]\<rparr>)
             \<lparr>at = YieldTry, tidy = Some ''fr''\<rparr> None g = (Some KeyError, g)" for g
    by (simp add: lang_at_exit_def restore_def unpickled_def setstate_def getstate_def
        english_def)
  show ?thesis
    by (simp add: with_lang_at_def e pass_def x) (simp add: module_import_def posix_host_def)
qed

text \<open>
  When the \<^verbatim>\<open>finally\<close> block does find the catalog of \<^verbatim>\<open>self.lang\<close>, that
  catalog is what it installs, whatever was installed before entry. Here the
  French catalog is active when the English instance enters the scope for
  \<^verbatim>\<open>de\<close>, and the English one is active afterwards.
\<close>

lemma lang_at_installs_default_not_previous:
  "with_lang_at posix_host english (Some ''de'') pass
     (install fr_catalog (module_import posix_host)) =
     (None,
      english\<lparr>gtobjs := [Some ''en'' \<mapsto> en_catalog, Some ''de'' \<mapsto> en_catalog]\<rparr>,
      (module_import posix_host)
        \<lparr>underscore := CatalogGettext en_catalog,
         calls := [Install [], Install fr_catalog, Translation (Some ''en''),
                   Install en_catalog, Install en_catalog]\<rparr>)
   \<and> underscore (install fr_catalog (module_import posix_host)) = CatalogGettext fr_catalog"
proof -
  have k: "two_letter (Some ''de'') = Some ''de''"
    by (simp add: two_letter_def char_eval)
  show ?thesis
    by (simp add: k with_lang_at_def lang_at_enter_def detect_language_no_fallback
        gettext_translation_def install_def pass_def lang_at_exit_def restore_def
        english_def module_import_def posix_host_def)
qed

text \<open>
  The scope does give back the catalog that was active in the case it is
  written for: the cache holds the catalog of \<^verbatim>\<open>self.lang\<close> and that catalog
  is the active one on entry.
\<close>

lemma lang_at_restores_active_default:
  assumes "GETTEXT_LOADED g"
    and "gtobjs self (lang self) = Some d"
    and "underscore g = CatalogGettext d"
  shows "underscore (snd (snd (with_lang_at E self lang0 pass g))) = CatalogGettext d"
proof (cases "gtobjs self (two_letter lang0)")
  case None
  then have ne: "two_letter lang0 \<noteq> lang self" using assms(2) by auto
  show ?thesis
    using assms None ne
    by (auto simp: with_lang_at_def lang_at_enter_def detect_language_no_fallback
        gettext_translation_def unwind_def restore_not_cached pass_def lang_at_exit_def
        restore_def install_def split: sum.splits)
next
  case (Some c)
  then show ?thesis
    using assms
    by (auto simp: with_lang_at_def lang_at_enter_def detect_language_no_fallback pass_def
        lang_at_exit_def restore_def install_def)
qed

section \<open>What an instance keeps\<close>

text \<open>
  Claim C8. Once an instance is built, \<^verbatim>\<open>lang_at\<close> is the operation that
  writes to it. The statement \<^verbatim>\<open>with self.lang_at(lang): body\<close>, from entry
  to exit and whether it raises or not, leaves \<^verbatim>\<open>self.lang\<close> as it was and
  keeps every entry of the cache with its catalog, provided the body does so:
  entries are added, never removed or replaced. \<^verbatim>\<open>__getstate__\<close> and
  \<^verbatim>\<open>detect_language\<close> return values and write no attribute, and
  \<^verbatim>\<open>__setstate__\<close> is a step of building a copy from a pickle.
\<close>

theorem lang_at_keeps_lang_and_cache:
  assumes "with_lang_at E self lang0 body g = (r, self', g')"
    and "\<forall>s h x s' h'. body s h = (x, s', h') \<longrightarrow>
           lang s' = lang s \<and> gtobjs s \<subseteq>\<^sub>m gtobjs s'"
  shows "lang self' = lang self \<and> gtobjs self \<subseteq>\<^sub>m gtobjs self'"
proof -
  obtain r1 self1 g1 where e: "lang_at_enter E self lang0 g = (r1, self1, g1)"
    by (cases "lang_at_enter E self lang0 g") auto
  from lang_at_enter_keeps [OF e]
  have k1: "lang self1 = lang self" "gtobjs self \<subseteq>\<^sub>m gtobjs self1" by simp_all
  show ?thesis
  proof (cases r1)
    case (Inl err)
    with assms(1) e have "self' = self1" by (simp add: with_lang_at_def)
    with k1 show ?thesis by simp
  next
    case (Inr sc)
    obtain x self2 g2 where b: "body self1 g1 = (x, self2, g2)"
      by (cases "body self1 g1") auto
    with assms(2) have k2: "lang self2 = lang self1" "gtobjs self1 \<subseteq>\<^sub>m gtobjs self2"
      by blast+
    from Inr assms(1) e b have "self' = self2"
      by (simp add: with_lang_at_def split: prod.splits)
    with k1 k2 show ?thesis by (auto intro: map_le_trans)
  qed
qed

theorem lang_at_keeps_lang_and_cache_witness:
  "lang (fst (snd (with_lang_at posix_host english (Some ''fr'') pass
                     (module_import posix_host)))) = Some ''en'' \<and>
   gtobjs english \<subseteq>\<^sub>m
     gtobjs (fst (snd (with_lang_at posix_host english (Some ''fr'') pass
                         (module_import posix_host))))"
proof -
  let ?w = "with_lang_at posix_host english (Some ''fr'') pass (module_import posix_host)"
  have w: "?w = (fst ?w, fst (snd ?w), snd (snd ?w))" by simp
  have p: "\<forall>s h x s' h'. pass s h = (x, s', h') \<longrightarrow>
             lang s' = lang s \<and> gtobjs s \<subseteq>\<^sub>m gtobjs s'"
    by (simp add: pass_def)
  show ?thesis
    using lang_at_keeps_lang_and_cache [OF w p] by (simp add: english_def)
qed

section \<open>Without gettext\<close>

text \<open>
  Claim C4. When gettext cannot be imported, \<^verbatim>\<open>_\<close> returns its argument
  and the scope does nothing, but rendering a lazy text does not return the
  text: \<^verbatim>\<open>__str__\<close> reads the name \<^verbatim>\<open>gettext\<close>, which the failed import
  left unbound, and raises \<^verbatim>\<open>NameError\<close>.
\<close>

theorem lazy_translation_without_gettext:
  assumes "\<not> gettext_importable E"
  shows "LazyTranslation_str E (module_import E) (gettext_lazy t) = Inl NameError"
  using assms by (simp add: LazyTranslation_str_def module_import_def)

theorem lazy_translation_without_gettext_witness:
  "\<not> gettext_importable bare_host \<and>
   LazyTranslation_str bare_host (module_import bare_host) (gettext_lazy ''Hello'') =
     Inl NameError"
proof -
  have b: "\<not> gettext_importable bare_host"
    by (simp add: bare_host_def)
  show ?thesis
    using b lazy_translation_without_gettext [OF b, of "''Hello''"] by simp
qed

text \<open>The operations that do degrade to doing nothing.\<close>

lemma without_gettext_passthrough:
  assumes "\<not> gettext_importable E"
  shows "call_underscore (underscore (module_import E)) t = t"
    and "lang_at_enter E self lang0 (module_import E) =
           (Inr \<lparr>at = YieldDisabled, tidy = lang0\<rparr>, self, module_import E)"
    and "lang_at_exit self \<lparr>at = YieldDisabled, tidy = lang0\<rparr> exc g = (exc, g)"
  using assms by (simp_all add: module_import_def lang_at_enter_def lang_at_exit_def)

end
